theory Spec2Isabelle
  imports Main "HOL-Library.Sublist"
begin

section \<open>The lineage downloader of minibusco (DownloadLineage.py)\<close>

text \<open>
  A shallow embedding of \<^verbatim>\<open>src/DownloadLineage.py\<close>. The module talks to three things that
  are not part of it: the local file system, the remote host and the console. They are the
  \<open>world\<close> below, threaded through every operation and kept when an exception is raised
  (a file written before a \<^verbatim>\<open>raise\<close> stays written). What the libraries compute from data
  the module never inspects (the MD5 digest of a file, the bytes behind a URL, the members of
  a tar archive) is a parameter, the \<open>env\<close>.
\<close>

subsection \<open>Exceptions\<close>

text \<open>
  \<open>Error\<close> is \<^verbatim>\<open>utils.Error\<close>, imported by the module. \<open>URLError\<close> is the class the module
  defines itself (lines 9 to 22), a direct subclass of \<^verbatim>\<open>OSError\<close>: it is the class the two
  \<^verbatim>\<open>except URLError\<close> clauses name. \<open>LibraryError\<close> stands for every exception of a class
  the module does not name, with the name of that class: what \<^verbatim>\<open>urllib\<close> raises is of its
  own classes (\<^verbatim>\<open>urllib.error.URLError\<close> and its subclasses, or an error of the socket
  layer), none of them the module's \<open>URLError\<close> or one of its subclasses.
\<close>

datatype exn =
    Error string
  | URLError string
  | KeyError string
  | TypeError
  | IndexError
  | ValueError
  | FileNotFoundError string
  | FileExistsError string
  | IsADirectoryError string
  | NotADirectoryError string
  | ReadError
  | LibraryError string

fun is_URLError :: "exn \<Rightarrow> bool" where
  "is_URLError (URLError r) = True"
| "is_URLError e = False"

fun is_KeyError :: "exn \<Rightarrow> bool" where
  "is_KeyError (KeyError k) = True"
| "is_KeyError e = False"

subsection \<open>The world: files, console, network log\<close>

type_synonym path = string
type_synonym url = string
type_synonym content = string

datatype node = File content | Dir

text \<open>
  Paths are the strings the module builds; \<open>fs\<close> maps a path to what is there. \<open>out\<close> holds
  the lines printed so far and \<open>reqs\<close> the URLs requested so far, oldest first.
  Paths are compared as written (\<^verbatim>\<open>a//b\<close> is not \<^verbatim>\<open>a/b\<close>); permissions, symbolic links and
  text decoding are outside the model: an operation fails only for the reasons written in
  its definition.
\<close>

record world =
  fs :: "path \<Rightarrow> node option"
  out :: "string list"
  reqs :: "url list"

text \<open>
  What a request for a URL comes to: the content is delivered; or the request fails before
  anything is written, with an exception of the named library class; or the transfer breaks
  off after part of the content has been written, with such an exception.
\<close>

datatype answer = Delivered content | Failed string | Truncated content string

text \<open>
  The library side: \<open>hexdigest\<close> is \<^verbatim>\<open>hashlib.md5(...).hexdigest()\<close> of a content, \<open>remote\<close> is
  the answer to a request for a URL (the same throughout), and \<open>members\<close> are the files of
  an archive, or the exception \<^verbatim>\<open>tarfile.open\<close> raises on it.
\<close>

record env =
  hexdigest :: "content \<Rightarrow> string"
  remote :: "url \<Rightarrow> answer"
  members :: "content \<Rightarrow> exn + (path \<times> content) list"

definition py_print :: "string \<Rightarrow> world \<Rightarrow> world" where
  "py_print s w = w\<lparr>out := out w @ [s]\<rparr>"

text \<open>\<^verbatim>\<open>os.path.join(a, b)\<close> of posixpath, for two arguments.\<close>

definition os_path_join :: "path \<Rightarrow> path \<Rightarrow> path" where
  "os_path_join a b =
     (if take 1 b = ''/'' then b
      else if a = [] \<or> last a = CHR ''/'' then a @ b
      else a @ ''/'' @ b)"

definition os_path_exists :: "world \<Rightarrow> path \<Rightarrow> bool" where
  "os_path_exists w p = (fs w p \<noteq> None)"

text \<open>\<^verbatim>\<open>os.path.dirname(p)\<close> of posixpath.\<close>

definition os_path_dirname :: "path \<Rightarrow> path" where
  "os_path_dirname p =
     (let head = rev (dropWhile (\<lambda>c. c \<noteq> CHR ''/'') (rev p))
      in if head \<noteq> [] \<and> filter (\<lambda>c. c \<noteq> CHR ''/'') head \<noteq> []
         then rev (dropWhile (\<lambda>c. c = CHR ''/'') (rev head))
         else head)"

text \<open>
  A path can be created only in a directory that is there. The empty directory name is the
  current directory and a name made of slashes is the root; both exist. The result is the
  exception that creating \<open>p\<close> raises for want of its directory, if any.
\<close>

definition parent_missing :: "world \<Rightarrow> path \<Rightarrow> exn option" where
  "parent_missing w p =
     (let d = os_path_dirname p
      in if d = [] \<or> filter (\<lambda>c. c \<noteq> CHR ''/'') d = [] then None
         else (case fs w d of
                 None \<Rightarrow> Some (FileNotFoundError p)
               | Some (File c) \<Rightarrow> Some (NotADirectoryError p)
               | Some Dir \<Rightarrow> None))"

definition os_mkdir :: "path \<Rightarrow> world \<Rightarrow> (exn + unit) \<times> world" where
  "os_mkdir p w =
     (if p = [] then (Inl (FileNotFoundError p), w)
      else if fs w p \<noteq> None then (Inl (FileExistsError p), w)
      else (case parent_missing w p of
              Some e \<Rightarrow> (Inl e, w)
            | None \<Rightarrow> (Inr (), w\<lparr>fs := (fs w)(p \<mapsto> Dir)\<rparr>)))"

text \<open>\<^verbatim>\<open>open(p, 'wb')\<close>: the exception it raises, if any.\<close>

definition open_for_writing :: "world \<Rightarrow> path \<Rightarrow> exn option" where
  "open_for_writing w p =
     (if p = [] then Some (FileNotFoundError p)
      else (case parent_missing w p of
              Some e \<Rightarrow> Some e
            | None \<Rightarrow> if fs w p = Some Dir then Some (IsADirectoryError p) else None))"

definition os_remove :: "path \<Rightarrow> world \<Rightarrow> (exn + unit) \<times> world" where
  "os_remove p w =
     (case fs w p of
        None \<Rightarrow> (Inl (FileNotFoundError p), w)
      | Some Dir \<Rightarrow> (Inl (IsADirectoryError p), w)
      | Some (File c) \<Rightarrow> (Inr (), w\<lparr>fs := (fs w)(p := None)\<rparr>))"

text \<open>
  \<^verbatim>\<open>shutil.rmtree(d)\<close>: \<open>d\<close> must be a directory; it goes, with every path below it.
\<close>

definition shutil_rmtree :: "path \<Rightarrow> world \<Rightarrow> (exn + unit) \<times> world" where
  "shutil_rmtree d w =
     (case fs w d of
        None \<Rightarrow> (Inl (FileNotFoundError d), w)
      | Some (File c) \<Rightarrow> (Inl (NotADirectoryError d), w)
      | Some Dir \<Rightarrow>
          (Inr (), w\<lparr>fs := (\<lambda>p. if p = d \<or> prefix (d @ ''/'') p then None else fs w p)\<rparr>))"

text \<open>\<^verbatim>\<open>open(p)\<close> followed by reading the whole file.\<close>

definition read_file :: "world \<Rightarrow> path \<Rightarrow> exn + content" where
  "read_file w p =
     (case fs w p of
        None \<Rightarrow> Inl (FileNotFoundError p)
      | Some Dir \<Rightarrow> Inl (IsADirectoryError p)
      | Some (File c) \<Rightarrow> Inr c)"

text \<open>
  \<^verbatim>\<open>md5(fname)\<close>, lines 25 to 30: the digest of the file's bytes. The chunked reading feeds
  the same bytes to the hash, so the result is the library's digest of the content.
\<close>

definition md5 :: "env \<Rightarrow> world \<Rightarrow> path \<Rightarrow> exn + string" where
  "md5 E w fname =
     (case read_file w fname of
        Inl e \<Rightarrow> Inl e
      | Inr c \<Rightarrow> Inr (hexdigest E c))"

text \<open>
  \<^verbatim>\<open>urllib.request.urlretrieve(url, p)\<close>: the request is logged and answered by
  \<open>remote E url\<close>. The URL is opened first, so a request that fails leaves the disk alone.
  Then the local file is opened for writing, which creates or empties it, and the content
  is written; a transfer that breaks off leaves what it has written and raises.
\<close>

definition urlretrieve :: "env \<Rightarrow> url \<Rightarrow> path \<Rightarrow> world \<Rightarrow> (exn + unit) \<times> world" where
  "urlretrieve E u p w =
     (let w1 = w\<lparr>reqs := reqs w @ [u]\<rparr> in
      case remote E u of
        Failed name \<Rightarrow> (Inl (LibraryError name), w1)
      | Delivered c \<Rightarrow>
          (case open_for_writing w p of
             Some e \<Rightarrow> (Inl e, w1)
           | None \<Rightarrow> (Inr (), w1\<lparr>fs := (fs w)(p \<mapsto> File c)\<rparr>))
      | Truncated c name \<Rightarrow>
          (case open_for_writing w p of
             Some e \<Rightarrow> (Inl e, w1)
           | None \<Rightarrow> (Inl (LibraryError name), w1\<lparr>fs := (fs w)(p \<mapsto> File c)\<rparr>)))"

subsection \<open>Text files and \<^verbatim>\<open>str\<close> methods\<close>

text \<open>
  The characters for which \<^verbatim>\<open>str.isspace()\<close> holds, among the code points below 256.
\<close>

definition whitespace :: "char list" where
  "whitespace =
     [CHR 0x09, CHR 0x0A, CHR 0x0B, CHR 0x0C, CHR 0x0D, CHR 0x1C, CHR 0x1D, CHR 0x1E,
      CHR 0x1F, CHR 0x20, CHR 0x85, CHR 0xA0]"

definition py_isspace :: "char \<Rightarrow> bool" where
  "py_isspace c = (c \<in> set whitespace)"

definition py_strip :: "string \<Rightarrow> string" where
  "py_strip s = rev (dropWhile py_isspace (rev (dropWhile py_isspace s)))"

text \<open>\<^verbatim>\<open>s.split()\<close> with no separator: the maximal runs of non-whitespace characters.\<close>

fun split_from :: "string \<Rightarrow> string \<Rightarrow> string list" where
  "split_from acc [] = (if acc = [] then [] else [acc])"
| "split_from acc (c # cs) =
     (if py_isspace c then (if acc = [] then split_from [] cs else acc # split_from [] cs)
      else split_from (acc @ [c]) cs)"

definition py_split :: "string \<Rightarrow> string list" where
  "py_split s = split_from [] s"

text \<open>
  A file opened in text mode translates \<^verbatim>\<open>\r\n\<close> and \<^verbatim>\<open>\r\<close> to \<^verbatim>\<open>\n\<close>; iterating over it
  yields its lines, each with its \<^verbatim>\<open>\n\<close> (the last one may lack it).
\<close>

fun universal_newlines :: "string \<Rightarrow> string" where
  "universal_newlines [] = []"
| "universal_newlines [c] = (if c = CHR 0x0D then [CHR 0x0A] else [c])"
| "universal_newlines (c # d # cs) =
     (if c = CHR 0x0D \<and> d = CHR 0x0A then CHR 0x0A # universal_newlines cs
      else if c = CHR 0x0D then CHR 0x0A # universal_newlines (d # cs)
      else c # universal_newlines (d # cs))"

fun lines_from :: "string \<Rightarrow> string \<Rightarrow> string list" where
  "lines_from acc [] = (if acc = [] then [] else [acc])"
| "lines_from acc (c # cs) =
     (if c = CHR 0x0A then (acc @ [c]) # lines_from [] cs else lines_from (acc @ [c]) cs)"

definition file_lines :: "content \<Rightarrow> string list" where
  "file_lines c = lines_from [] (universal_newlines c)"

text \<open>\<^verbatim>\<open>fin.readline()\<close> on a file just opened: its first line, or the empty string.\<close>

definition readline :: "content \<Rightarrow> string" where
  "readline c = (case file_lines c of [] \<Rightarrow> [] | l # ls \<Rightarrow> l)"

subsection \<open>The downloader object\<close>

text \<open>
  \<open>lineage_description\<close> is \<^verbatim>\<open>None\<close> or a dictionary from lineage names to lists of strings
  \<^verbatim>\<open>[date, hash_value, category]\<close>, to which the module appends local paths.
\<close>

record downloader =
  base_url :: string
  default_lineage :: "string list"
  download_dir :: path
  lineage_description :: "(string \<Rightarrow> string list option) option"

text \<open>\<^verbatim>\<open>self.lineage_description[lineage]\<close>.\<close>

definition lookup_description :: "downloader \<Rightarrow> string \<Rightarrow> exn + string list" where
  "lookup_description self lineage =
     (case lineage_description self of
        None \<Rightarrow> Inl TypeError
      | Some d \<Rightarrow> (case d lineage of None \<Rightarrow> Inl (KeyError lineage) | Some entry \<Rightarrow> Inr entry))"

text \<open>\<^verbatim>\<open>self.lineage_description[lineage].append(p)\<close>.\<close>

definition append_description :: "downloader \<Rightarrow> string \<Rightarrow> string \<Rightarrow> exn + downloader" where
  "append_description self lineage p =
     (case lineage_description self of
        None \<Rightarrow> Inl TypeError
      | Some d \<Rightarrow>
          (case d lineage of
             None \<Rightarrow> Inl (KeyError lineage)
           | Some entry \<Rightarrow> Inr (self\<lparr>lineage_description := Some (d(lineage \<mapsto> entry @ [p]))\<rparr>)))"

subsection \<open>\<^verbatim>\<open>download_single_file\<close>, lines 62 to 78\<close>

text \<open>The body of the \<^verbatim>\<open>try\<close>, lines 65 to 74.\<close>

definition retrieve_and_check ::
    "env \<Rightarrow> url \<Rightarrow> path \<Rightarrow> string \<Rightarrow> world \<Rightarrow> (exn + unit) \<times> world" where
  "retrieve_and_check E remote_filepath local_filepath expected_hash w =
     (case urlretrieve E remote_filepath local_filepath w of
        (Inl e, w1) \<Rightarrow> (Inl e, w1)
      | (Inr u, w1) \<Rightarrow>
          (case md5 E w1 local_filepath of
             Inl e \<Rightarrow> (Inl e, w1)
           | Inr observed_hash \<Rightarrow>
               (if observed_hash \<noteq> expected_hash then
                  (let w2 = py_print (''md5 hash is incorrect: '' @ observed_hash @ '' while ''
                                        @ expected_hash @ '' expected'') w1;
                       w3 = py_print (''deleting corrupted file '' @ local_filepath) w2
                   in case os_remove local_filepath w3 of
                        (Inl e, w4) \<Rightarrow> (Inl e, w4)
                      | (Inr u, w4) \<Rightarrow> (Inl (Error ''Unable to download necessary files''), w4))
                else
                  (let w2 = py_print (''Success download from '' @ remote_filepath) w1;
                       w3 = py_print (''md5 hash is '' @ observed_hash) w2
                   in (Inr (), w3)))))"

definition download_single_file ::
    "env \<Rightarrow> url \<Rightarrow> path \<Rightarrow> string \<Rightarrow> world \<Rightarrow> (exn + bool) \<times> world" where
  "download_single_file E remote_filepath local_filepath expected_hash w =
     (case retrieve_and_check E remote_filepath local_filepath expected_hash w of
        (Inl e, w1) \<Rightarrow>
          (if is_URLError e then (Inr False, py_print (''Cannot reach '' @ remote_filepath) w1)
           else (Inl e, w1))
      | (Inr u, w1) \<Rightarrow> (Inr True, w1))"

subsection \<open>\<^verbatim>\<open>download_file_version_document\<close>, lines 80 to 109\<close>

text \<open>
  The loop of lines 102 to 106 over the lines of the manifest, \<open>d\<close> being
  \<^verbatim>\<open>lineages_description_dict\<close>. Unpacking a list that has not five elements raises
  \<^verbatim>\<open>ValueError\<close>.
\<close>

fun parse_lines ::
    "string list \<Rightarrow> (string \<Rightarrow> string list option) \<Rightarrow> exn + (string \<Rightarrow> string list option)" where
  "parse_lines [] d = Inr d"
| "parse_lines (line # rest) d =
     (let fields = py_split (py_strip line) in
      if length fields \<noteq> 5 then Inl ValueError
      else
        (let strain = fields ! 0; date = fields ! 1; hash_value = fields ! 2;
             category = fields ! 3; info = fields ! 4
         in if info \<noteq> ''lineages'' then parse_lines rest d
            else parse_lines rest (d(strain \<mapsto> [date, hash_value, category]))))"

definition download_file_version_document ::
    "env \<Rightarrow> downloader \<Rightarrow> world \<Rightarrow> (exn + (string \<Rightarrow> string list option) option) \<times> world" where
  "download_file_version_document E self w =
     (let file_version_url = base_url self @ ''file_versions.tsv'';
          file_version_download_path = os_path_join (download_dir self) ''file_versions.tsv'';
          hash_url = base_url self @ ''file_versions.tsv.hash'';
          hash_download_path = os_path_join (download_dir self) ''file_versions.tsv.hash''
      in case urlretrieve E hash_url hash_download_path w of
           (Inl e, w1) \<Rightarrow>
             (if is_URLError e then
                (Inl (Error ''Unable to download necessary files''),
                 py_print (''Cannot reach '' @ hash_url) w1)
              else (Inl e, w1))
         | (Inr u, w1) \<Rightarrow>
             (case read_file w1 hash_download_path of
                Inl e \<Rightarrow> (Inl e, w1)
              | Inr hash_text \<Rightarrow>
                  (let expected_file_version_hash = py_strip (readline hash_text)
                   in case download_single_file E file_version_url file_version_download_path
                             expected_file_version_hash w1 of
                        (Inl e, w2) \<Rightarrow> (Inl e, w2)
                      | (Inr download_success, w2) \<Rightarrow>
                          (if download_success then
                             (case read_file w2 file_version_download_path of
                                Inl e \<Rightarrow> (Inl e, w2)
                              | Inr text \<Rightarrow>
                                  (case parse_lines (file_lines text) Map.empty of
                                     Inl e \<Rightarrow> (Inl e, w2)
                                   | Inr d \<Rightarrow> (Inr (Some d), w2)))
                           else (Inr None, w2)))))"

subsection \<open>\<^verbatim>\<open>download_lineage\<close>, lines 111 to 128\<close>

text \<open>
  An archive is a list of member files, each a relative path and a content.
  \<^verbatim>\<open>extractall(d)\<close> writes every member below \<open>d\<close> and creates the directories on its way.
\<close>

definition ancestors :: "path \<Rightarrow> path list" where
  "ancestors p = map (\<lambda>i. take i p) (filter (\<lambda>i. p ! i = CHR ''/'') [1..<length p])"

fun extract_members ::
    "path \<Rightarrow> (path \<times> content) list \<Rightarrow> (path \<Rightarrow> node option) \<Rightarrow> (path \<Rightarrow> node option)" where
  "extract_members d [] f = f"
| "extract_members d ((n, c) # ms) f =
     extract_members d ms
       ((foldr (\<lambda>a g. g(os_path_join d a \<mapsto> Dir)) (ancestors n) f)(os_path_join d n \<mapsto> File c))"

text \<open>Lines 122 to 124: open the archive, extract it, close it.\<close>

definition extract_archive :: "env \<Rightarrow> path \<Rightarrow> path \<Rightarrow> world \<Rightarrow> (exn + unit) \<times> world" where
  "extract_archive E download_path d w =
     (case read_file w download_path of
        Inl e \<Rightarrow> (Inl e, w)
      | Inr c \<Rightarrow>
          (case members E c of
             Inl e \<Rightarrow> (Inl e, w)
           | Inr ms \<Rightarrow> (Inr (), w\<lparr>fs := extract_members d ms (fs w)\<rparr>)))"

text \<open>One turn of the loop, lines 117 to 128.\<close>

definition download_one ::
    "env \<Rightarrow> string \<Rightarrow> downloader \<Rightarrow> world \<Rightarrow> (exn + unit) \<times> downloader \<times> world" where
  "download_one E lineage self w =
     (case lookup_description self lineage of
        Inl e \<Rightarrow> (Inl e, self, w)
      | Inr entry \<Rightarrow>
          (if length (take 2 entry) \<noteq> 2 then (Inl ValueError, self, w)
           else
             (let date = entry ! 0; expected_hash = entry ! 1;
                  remote_url = base_url self @ ''lineages/'' @ lineage @ ''.'' @ date @ ''.tar.gz'';
                  download_path =
                    os_path_join (download_dir self) (lineage @ ''.'' @ date @ ''.tar.gz'')
              in case download_single_file E remote_url download_path expected_hash w of
                   (Inl e, w1) \<Rightarrow> (Inl e, self, w1)
                 | (Inr download_success, w1) \<Rightarrow>
                     (if download_success then
                        (case extract_archive E download_path (download_dir self) w1 of
                           (Inl e, w2) \<Rightarrow> (Inl e, self, w2)
                         | (Inr u, w2) \<Rightarrow>
                             (let w3 = py_print ''Gene library extraction finished'' w2;
                                  w4 = py_print (''Gene library ready!'' @ [CHR 0x0A]
                                         @ '' Reference file: '' @ download_dir self @ ''/''
                                         @ lineage @ ''/refseq_db.faa.gz'') w3;
                                  local_lineage_dir = download_dir self @ ''/'' @ lineage
                              in case append_description self lineage local_lineage_dir of
                                   Inl e \<Rightarrow> (Inl e, self, w4)
                                 | Inr self' \<Rightarrow> (Inr (), self', w4)))
                      else (Inr (), self, w1)))))"

fun download_lineages ::
    "env \<Rightarrow> string list \<Rightarrow> downloader \<Rightarrow> world \<Rightarrow> (exn + unit) \<times> downloader \<times> world" where
  "download_lineages E [] self w = (Inr (), self, w)"
| "download_lineages E (lineage # rest) self w =
     (case download_one E lineage self w of
        (Inl e, self1, w1) \<Rightarrow> (Inl e, self1, w1)
      | (Inr u, self1, w1) \<Rightarrow> download_lineages E rest self1 w1)"

definition download_lineage ::
    "env \<Rightarrow> string option \<Rightarrow> downloader \<Rightarrow> world \<Rightarrow> (exn + unit) \<times> downloader \<times> world" where
  "download_lineage E lineage self w =
     download_lineages E (case lineage of None \<Rightarrow> default_lineage self | Some l \<Rightarrow> [l]) self w"

subsection \<open>\<^verbatim>\<open>has_local_lineage\<close>, lines 130 to 137\<close>

definition has_local_lineage :: "downloader \<Rightarrow> string \<Rightarrow> exn + bool" where
  "has_local_lineage self lineage =
     (case lookup_description self lineage of
        Inl e \<Rightarrow>
          (if is_KeyError e then Inl (Error (''invalid lineage name: '' @ lineage)) else Inl e)
      | Inr entry \<Rightarrow> Inr (length entry = 4))"

subsection \<open>The constructor, lines 34 to 60\<close>

text \<open>The body of the \<^verbatim>\<open>try\<close> for one default lineage, lines 46 to 58.\<close>

definition ensure_lineage ::
    "env \<Rightarrow> string \<Rightarrow> downloader \<Rightarrow> world \<Rightarrow> (exn + unit) \<times> downloader \<times> world" where
  "ensure_lineage E lineage self w =
     (case lookup_description self lineage of
        Inl e \<Rightarrow> (Inl e, self, w)
      | Inr entry \<Rightarrow>
          (if length entry \<le> 1 then (Inl IndexError, self, w)
           else
             (let expected_hash = entry ! 1;
                  refseq = os_path_join (download_dir self) (lineage @ ''/refseq_db.faa.gz'')
              in if os_path_exists w refseq then
                   (case md5 E w refseq of
                      Inl e \<Rightarrow> (Inl e, self, w)
                    | Inr observed_hash \<Rightarrow>
                        (if expected_hash = observed_hash then
                           (case append_description self lineage refseq of
                              Inl e \<Rightarrow> (Inl e, self, w)
                            | Inr self1 \<Rightarrow> (Inr (), self1, w))
                         else
                           (let w1 = py_print (''md5 hash is incorrect: '' @ observed_hash
                                        @ '' while '' @ expected_hash @ '' expected'') w
                            in case shutil_rmtree (os_path_join (download_dir self) lineage) w1 of
                                 (Inl e, w2) \<Rightarrow> (Inl e, self, w2)
                               | (Inr u, w2) \<Rightarrow>
                                   (case os_remove refseq w2 of
                                      (Inl e, w3) \<Rightarrow> (Inl e, self, w3)
                                    | (Inr u, w3) \<Rightarrow> (Inr (), self, w3)))))
                 else download_lineage E (Some lineage) self w)))"

text \<open>The \<^verbatim>\<open>try\<close> with its \<^verbatim>\<open>except KeyError\<close>, lines 45 to 60.\<close>

definition init_lineage ::
    "env \<Rightarrow> string \<Rightarrow> downloader \<Rightarrow> world \<Rightarrow> (exn + unit) \<times> downloader \<times> world" where
  "init_lineage E lineage self w =
     (case ensure_lineage E lineage self w of
        (Inl e, self1, w1) \<Rightarrow>
          (if is_KeyError e then (Inl (Error (''invalid lineage name: '' @ lineage)), self1, w1)
           else (Inl e, self1, w1))
      | (Inr u, self1, w1) \<Rightarrow> (Inr (), self1, w1))"

fun init_lineages ::
    "env \<Rightarrow> string list \<Rightarrow> downloader \<Rightarrow> world \<Rightarrow> (exn + unit) \<times> downloader \<times> world" where
  "init_lineages E [] self w = (Inr (), self, w)"
| "init_lineages E (lineage # rest) self w =
     (case init_lineage E lineage self w of
        (Inl e, self1, w1) \<Rightarrow> (Inl e, self1, w1)
      | (Inr u, self1, w1) \<Rightarrow> init_lineages E rest self1 w1)"

text \<open>
  Lines 35 to 40: the attributes set before anything is downloaded. Until line 43 assigns it,
  the attribute \<open>lineage_description\<close> does not exist; nothing reads it before, so its first
  value here is never seen.
\<close>

definition new_downloader :: "path option \<Rightarrow> downloader" where
  "new_downloader download_dir_arg =
     \<lparr>base_url = ''https://busco-data.ezlab.org/v5/data/'',
      default_lineage = [''archaea_odb10'', ''bacteria_odb10'', ''eukaryota_odb10''],
      download_dir = (case download_dir_arg of None \<Rightarrow> ''downloads'' | Some d \<Rightarrow> d),
      lineage_description = None\<rparr>"

text \<open>Lines 41 and 42.\<close>

definition make_download_dir :: "path \<Rightarrow> world \<Rightarrow> (exn + unit) \<times> world" where
  "make_download_dir d w = (if \<not> os_path_exists w d then os_mkdir d w else (Inr (), w))"

text \<open>\<^verbatim>\<open>Downloader(download_dir)\<close>. A constructor that raises yields no object.\<close>

definition Downloader_init :: "env \<Rightarrow> path option \<Rightarrow> world \<Rightarrow> (exn + downloader) \<times> world" where
  "Downloader_init E download_dir_arg w =
     (let self0 = new_downloader download_dir_arg
      in case make_download_dir (download_dir self0) w of
           (Inl e, w1) \<Rightarrow> (Inl e, w1)
         | (Inr u, w1) \<Rightarrow>
             (case download_file_version_document E self0 w1 of
                (Inl e, w2) \<Rightarrow> (Inl e, w2)
              | (Inr d, w2) \<Rightarrow>
                  (case init_lineages E (default_lineage self0)
                          (self0\<lparr>lineage_description := d\<rparr>) w2 of
                     (Inl e, self1, w3) \<Rightarrow> (Inl e, w3)
                   | (Inr u, self1, w3) \<Rightarrow> (Inr self1, w3))))"

subsection \<open>The manifest as a table\<close>

text \<open>
  What the manifest says, read as the format describes it: its rows are its lines split at
  whitespace, and the catalog of a list of rows gives a name the date, hash and category of
  the last row that bears it.
\<close>

definition manifest_rows :: "content \<Rightarrow> string list list" where
  "manifest_rows text = map (\<lambda>l. py_split (py_strip l)) (file_lines text)"

definition lineages_rows :: "content \<Rightarrow> string list list" where
  "lineages_rows text = filter (\<lambda>r. r ! 4 = ''lineages'') (manifest_rows text)"

definition catalog_of_rows :: "string list list \<Rightarrow> string \<Rightarrow> string list option" where
  "catalog_of_rows rows name =
     (case filter (\<lambda>r. r ! 0 = name) rows of
        [] \<Rightarrow> None
      | r # rs \<Rightarrow> Some [last (r # rs) ! 1, last (r # rs) ! 2, last (r # rs) ! 3])"

subsection \<open>A remote host and a local disk to run the module on\<close>

text \<open>
  A host that serves a manifest, its hash file and the archives of the three default
  lineages, each archive holding the reference file of its lineage. The digests are those
  the manifest lists; a request for any other URL fails with \<^verbatim>\<open>urllib.error.URLError\<close>.
\<close>

definition example_manifest :: content where
  "example_manifest =
     ''archaea_odb10 2021-02-23 aa11 prokaryota lineages\<newline>'' @
     ''bacteria_odb10 2020-03-06 bb22 prokaryota lineages\<newline>'' @
     ''eukaryota_odb10 2020-09-10 ee33 eukaryota lineages\<newline>'' @
     ''list_of_reference_markers.archaea_odb10 2019-12-16 cc44 prokaryota placement_files\<newline>''"

definition host :: "content \<Rightarrow> env" where
  "host manifest =
     \<lparr>hexdigest =
        (\<lambda>c. if c = manifest then ''m0''
              else if c = ''archaea archive'' then ''aa11''
              else if c = ''bacteria archive'' then ''bb22''
              else if c = ''eukaryota archive'' then ''ee33''
              else ''ffff''),
      remote =
        (\<lambda>u. if u = ''https://busco-data.ezlab.org/v5/data/file_versions.tsv.hash''
                then Delivered ''m0\<newline>''
              else if u = ''https://busco-data.ezlab.org/v5/data/file_versions.tsv''
                then Delivered manifest
              else if u = ''https://busco-data.ezlab.org/v5/data/lineages/archaea_odb10.2021-02-23.tar.gz''
                then Delivered ''archaea archive''
              else if u = ''https://busco-data.ezlab.org/v5/data/lineages/bacteria_odb10.2020-03-06.tar.gz''
                then Delivered ''bacteria archive''
              else if u = ''https://busco-data.ezlab.org/v5/data/lineages/eukaryota_odb10.2020-09-10.tar.gz''
                then Delivered ''eukaryota archive''
              else Failed ''urllib.error.URLError''),
      members =
        (\<lambda>c. if c = ''archaea archive''
                then Inr [(''archaea_odb10/refseq_db.faa.gz'', ''archaea sequences'')]
              else if c = ''bacteria archive''
                then Inr [(''bacteria_odb10/refseq_db.faa.gz'', ''bacteria sequences'')]
              else if c = ''eukaryota archive''
                then Inr [(''eukaryota_odb10/refseq_db.faa.gz'', ''eukaryota sequences'')]
              else Inl ReadError)\<rparr>"

definition empty_disk :: world where
  "empty_disk = \<lparr>fs = Map.empty, out = [], reqs = []\<rparr>"

text \<open>A disk that holds the download directory and nothing else.\<close>

definition downloads_disk :: world where
  "downloads_disk = \<lparr>fs = [''downloads'' \<mapsto> Dir], out = [], reqs = []\<rparr>"

text \<open>The same host while only the hash file of the manifest can be reached.\<close>

definition hash_only_host :: env where
  "hash_only_host =
     (host example_manifest)
       \<lparr>remote :=
          (\<lambda>u. if u = ''https://busco-data.ezlab.org/v5/data/file_versions.tsv.hash''
                  then Delivered ''m0\<newline>''
                else Failed ''urllib.error.URLError'')\<rparr>"

text \<open>A manifest that lists one name twice.\<close>

definition twice_manifest :: content where
  "twice_manifest =
     ''foo 2021-01-01 aaa category1 lineages\<newline>'' @
     ''foo 2022-02-02 bbb category2 lineages\<newline>''"

text \<open>A downloader with a one-entry catalog, as the constructor would leave it.\<close>

definition one_entry :: "string \<Rightarrow> string list \<Rightarrow> downloader" where
  "one_entry name entry = (new_downloader None)\<lparr>lineage_description := Some [name \<mapsto> entry]\<rparr>"

section \<open>Properties\<close>

subsection \<open>Fetching one file\<close>

lemma urlretrieve_ok:
  "remote E u = Delivered c \<Longrightarrow> open_for_writing w p = None \<Longrightarrow>
   urlretrieve E u p w = (Inr (), w\<lparr>reqs := reqs w @ [u], fs := (fs w)(p \<mapsto> File c)\<rparr>)"
  by (simp add: urlretrieve_def)

lemma urlretrieve_raises:
  "remote E u = Failed name \<Longrightarrow>
   urlretrieve E u p w = (Inl (LibraryError name), w\<lparr>reqs := reqs w @ [u]\<rparr>)"
  by (simp add: urlretrieve_def)

lemma download_single_file_mismatch:
  assumes "remote E remote_filepath = Delivered c"
    and "open_for_writing w local_filepath = None"
    and "hexdigest E c \<noteq> expected_hash"
  shows "download_single_file E remote_filepath local_filepath expected_hash w =
           (Inl (Error ''Unable to download necessary files''),
            w\<lparr>reqs := reqs w @ [remote_filepath],
              fs := (fs w)(local_filepath := None),
              out := out w @ [''md5 hash is incorrect: '' @ hexdigest E c @ '' while ''
                                @ expected_hash @ '' expected'',
                              ''deleting corrupted file '' @ local_filepath]\<rparr>)"
  using assms
  by (simp add: download_single_file_def retrieve_and_check_def urlretrieve_ok md5_def
      read_file_def py_print_def os_remove_def)

lemma download_single_file_ok:
  assumes "remote E remote_filepath = Delivered c"
    and "open_for_writing w local_filepath = None"
    and "hexdigest E c = expected_hash"
  shows "download_single_file E remote_filepath local_filepath expected_hash w =
           (Inr True,
            w\<lparr>reqs := reqs w @ [remote_filepath],
              fs := (fs w)(local_filepath \<mapsto> File c),
              out := out w @ [''Success download from '' @ remote_filepath,
                              ''md5 hash is '' @ expected_hash]\<rparr>)"
  using assms
  by (simp add: download_single_file_def retrieve_and_check_def urlretrieve_ok md5_def
      read_file_def py_print_def)

lemma download_one_raises:
  assumes "lookup_description self lineage = Inr entry"
    and "2 \<le> length entry"
    and "download_single_file E
           (base_url self @ ''lineages/'' @ lineage @ ''.'' @ entry ! 0 @ ''.tar.gz'')
           (os_path_join (download_dir self) (lineage @ ''.'' @ entry ! 0 @ ''.tar.gz''))
           (entry ! 1) w = (Inl e, w1)"
  shows "download_one E lineage self w = (Inl e, self, w1)"
  using assms by (simp add: download_one_def Let_def)

lemma download_lineage_raises:
  assumes "lookup_description self lineage = Inr entry"
    and "2 \<le> length entry"
    and "download_single_file E
           (base_url self @ ''lineages/'' @ lineage @ ''.'' @ entry ! 0 @ ''.tar.gz'')
           (os_path_join (download_dir self) (lineage @ ''.'' @ entry ! 0 @ ''.tar.gz''))
           (entry ! 1) w = (Inl e, w1)"
  shows "download_lineage E (Some lineage) self w = (Inl e, self, w1)"
  using download_one_raises [OF assms] by (simp add: download_lineage_def)

text \<open>
  Claim C3. The transfer succeeds: the content is delivered and the local file can be
  opened for writing (its directory is there and the path is not a directory). When the
  digest of the file just written differs from the expected one (string equality, case
  included), \<open>download_single_file\<close> prints the observed and the expected digest, deletes
  the file it wrote and raises \<^verbatim>\<open>Error("Unable to download necessary files")\<close> instead of
  returning \<^verbatim>\<open>False\<close>. The error is not caught by \<open>download_lineage\<close>: a call that leads to
  this fetch ends with the same error, in the same world, and leaves the catalog as it was.
\<close>

theorem download_single_file_hash_mismatch:
  assumes "remote E remote_filepath = Delivered c"
    and "open_for_writing w local_filepath = None"
    and "hexdigest E c \<noteq> expected_hash"
  shows "download_single_file E remote_filepath local_filepath expected_hash w =
           (Inl (Error ''Unable to download necessary files''),
            w\<lparr>reqs := reqs w @ [remote_filepath],
              fs := (fs w)(local_filepath := None),
              out := out w @ [''md5 hash is incorrect: '' @ hexdigest E c @ '' while ''
                                @ expected_hash @ '' expected'',
                              ''deleting corrupted file '' @ local_filepath]\<rparr>)
         \<and> (\<forall>self lineage entry.
               lookup_description self lineage = Inr entry \<and> 2 \<le> length entry
               \<and> base_url self @ ''lineages/'' @ lineage @ ''.'' @ entry ! 0 @ ''.tar.gz''
                   = remote_filepath
               \<and> os_path_join (download_dir self) (lineage @ ''.'' @ entry ! 0 @ ''.tar.gz'')
                   = local_filepath
               \<and> entry ! 1 = expected_hash
               \<longrightarrow> download_lineage E (Some lineage) self w =
                     (Inl (Error ''Unable to download necessary files''), self,
                      w\<lparr>reqs := reqs w @ [remote_filepath],
                        fs := (fs w)(local_filepath := None),
                        out := out w @ [''md5 hash is incorrect: '' @ hexdigest E c @ '' while ''
                                          @ expected_hash @ '' expected'',
                                        ''deleting corrupted file '' @ local_filepath]\<rparr>))"
proof (intro conjI allI impI)
  show "download_single_file E remote_filepath local_filepath expected_hash w =
           (Inl (Error ''Unable to download necessary files''),
            w\<lparr>reqs := reqs w @ [remote_filepath],
              fs := (fs w)(local_filepath := None),
              out := out w @ [''md5 hash is incorrect: '' @ hexdigest E c @ '' while ''
                                @ expected_hash @ '' expected'',
                              ''deleting corrupted file '' @ local_filepath]\<rparr>)"
    by (rule download_single_file_mismatch [OF assms])
next
  fix self lineage entry
  assume h: "lookup_description self lineage = Inr entry \<and> 2 \<le> length entry
               \<and> base_url self @ ''lineages/'' @ lineage @ ''.'' @ entry ! 0 @ ''.tar.gz''
                   = remote_filepath
               \<and> os_path_join (download_dir self) (lineage @ ''.'' @ entry ! 0 @ ''.tar.gz'')
                   = local_filepath
               \<and> entry ! 1 = expected_hash"
  show "download_lineage E (Some lineage) self w =
                     (Inl (Error ''Unable to download necessary files''), self,
                      w\<lparr>reqs := reqs w @ [remote_filepath],
                        fs := (fs w)(local_filepath := None),
                        out := out w @ [''md5 hash is incorrect: '' @ hexdigest E c @ '' while ''
                                          @ expected_hash @ '' expected'',
                                        ''deleting corrupted file '' @ local_filepath]\<rparr>)"
    using h download_single_file_mismatch [OF assms]
    by (intro download_lineage_raises [where entry = entry]) auto
qed

lemma open_in_downloads:
  "open_for_writing downloads_disk ''downloads/archaea_odb10.2021-02-23.tar.gz'' = None"
  "open_for_writing downloads_disk ''downloads/thiotrichales_odb10.2020-03-06.tar.gz'' = None"
  "open_for_writing downloads_disk ''downloads/file_versions.tsv.hash'' = None"
  "open_for_writing downloads_disk ''downloads/file_versions.tsv'' = None"
  by (simp_all add: open_for_writing_def parent_missing_def os_path_dirname_def
      downloads_disk_def)

theorem download_single_file_hash_mismatch_witness:
  "download_single_file (host example_manifest)
     ''https://busco-data.ezlab.org/v5/data/lineages/archaea_odb10.2021-02-23.tar.gz''
     ''downloads/archaea_odb10.2021-02-23.tar.gz'' ''AA11'' downloads_disk =
     (Inl (Error ''Unable to download necessary files''),
      \<lparr>fs = [''downloads'' \<mapsto> Dir],
       out = [''md5 hash is incorrect: aa11 while AA11 expected'',
              ''deleting corrupted file downloads/archaea_odb10.2021-02-23.tar.gz''],
       reqs = [''https://busco-data.ezlab.org/v5/data/lineages/archaea_odb10.2021-02-23.tar.gz'']\<rparr>)
   \<and> download_lineage (host example_manifest) (Some ''archaea_odb10'')
       (one_entry ''archaea_odb10'' [''2021-02-23'', ''AA11'', ''prokaryota'']) downloads_disk =
     (Inl (Error ''Unable to download necessary files''),
      one_entry ''archaea_odb10'' [''2021-02-23'', ''AA11'', ''prokaryota''],
      \<lparr>fs = [''downloads'' \<mapsto> Dir],
       out = [''md5 hash is incorrect: aa11 while AA11 expected'',
              ''deleting corrupted file downloads/archaea_odb10.2021-02-23.tar.gz''],
       reqs = [''https://busco-data.ezlab.org/v5/data/lineages/archaea_odb10.2021-02-23.tar.gz'']\<rparr>)"
proof -
  have r: "remote (host example_manifest)
     ''https://busco-data.ezlab.org/v5/data/lineages/archaea_odb10.2021-02-23.tar.gz''
     = Delivered ''archaea archive''"
    by (simp add: host_def)
  have h: "hexdigest (host example_manifest) ''archaea archive'' \<noteq> ''AA11''"
    by (simp add: host_def example_manifest_def)
  note t = download_single_file_hash_mismatch [OF r open_in_downloads(1) h]
  have l: "lookup_description (one_entry ''archaea_odb10'' [''2021-02-23'', ''AA11'', ''prokaryota''])
             ''archaea_odb10'' = Inr [''2021-02-23'', ''AA11'', ''prokaryota'']"
    by (simp add: lookup_description_def one_entry_def new_downloader_def)
  have d: "hexdigest (host example_manifest) ''archaea archive'' = ''aa11''"
    by (simp add: host_def example_manifest_def)
  have m: "(fs downloads_disk)(''downloads/archaea_odb10.2021-02-23.tar.gz'' := None)
             = [''downloads'' \<mapsto> Dir]"
    by (rule ext) (simp add: downloads_disk_def)
  from t l show ?thesis
    by (simp add: d m one_entry_def new_downloader_def os_path_join_def)
       (simp add: downloads_disk_def)
qed

subsection \<open>The handler for an unreachable host\<close>

text \<open>
  Whatever \<open>download_single_file\<close> raises inside its \<^verbatim>\<open>try\<close> is not of the module's
  \<open>URLError\<close>: the handler of lines 75 to 77 never runs.
\<close>

lemma open_for_writing_not_URLError:
  "open_for_writing w p = Some e \<Longrightarrow> \<not> is_URLError e"
  by (auto simp add: open_for_writing_def parent_missing_def Let_def
      split: if_splits option.splits node.splits)

lemma urlretrieve_not_URLError:
  "urlretrieve E u p w = (Inl e, w1) \<Longrightarrow> \<not> is_URLError e"
  by (auto simp add: urlretrieve_def Let_def dest: open_for_writing_not_URLError
      split: answer.splits option.splits)

lemma retrieve_and_check_not_URLError:
  "retrieve_and_check E u p h w = (Inl e, w1) \<Longrightarrow> \<not> is_URLError e"
  by (auto simp add: retrieve_and_check_def md5_def read_file_def os_remove_def Let_def
      dest: urlretrieve_not_URLError
      split: prod.splits sum.splits option.splits node.splits if_splits)

lemma download_single_file_never_False:
  "fst (download_single_file E u p h w) \<noteq> Inr False"
  by (auto simp add: download_single_file_def dest: retrieve_and_check_not_URLError
      split: prod.splits sum.splits)

lemma download_single_file_unreachable:
  assumes "remote E remote_filepath = Failed name"
  shows "download_single_file E remote_filepath local_filepath expected_hash w =
           (Inl (LibraryError name), w\<lparr>reqs := reqs w @ [remote_filepath]\<rparr>)"
  using assms
  by (simp add: download_single_file_def retrieve_and_check_def urlretrieve_raises)

text \<open>
  Claim C4 asks that a fetch whose host cannot be reached returns \<^verbatim>\<open>False\<close> and raises
  nothing. The request for an archive the example host does not serve fails with
  \<^verbatim>\<open>urllib.error.URLError\<close>; \<open>download_single_file\<close> raises that exception to its caller,
  prints nothing and returns nothing.
\<close>

theorem download_single_file_raises_when_unreachable:
  "remote (host example_manifest)
     ''https://busco-data.ezlab.org/v5/data/lineages/thiotrichales_odb10.2020-03-06.tar.gz''
     = Failed ''urllib.error.URLError''
   \<and> download_single_file (host example_manifest)
       ''https://busco-data.ezlab.org/v5/data/lineages/thiotrichales_odb10.2020-03-06.tar.gz''
       ''downloads/thiotrichales_odb10.2020-03-06.tar.gz'' ''dd55'' downloads_disk =
     (Inl (LibraryError ''urllib.error.URLError''),
      \<lparr>fs = [''downloads'' \<mapsto> Dir], out = [],
       reqs = [''https://busco-data.ezlab.org/v5/data/lineages/thiotrichales_odb10.2020-03-06.tar.gz'']\<rparr>)"
proof -
  have r: "remote (host example_manifest)
      ''https://busco-data.ezlab.org/v5/data/lineages/thiotrichales_odb10.2020-03-06.tar.gz''
      = Failed ''urllib.error.URLError''"
    by (simp add: host_def)
  show ?thesis
    by (simp add: r download_single_file_unreachable [OF r] downloads_disk_def)
qed

subsection \<open>The availability query\<close>

text \<open>
  Claim C8. For a name that the loaded catalog does not hold, \<open>has_local_lineage\<close> raises
  \<^verbatim>\<open>Error("invalid lineage name: ...")\<close>; it does not return \<^verbatim>\<open>False\<close>.
\<close>

theorem has_local_lineage_unknown_name:
  assumes "lineage_description self = Some d" and "d lineage = None"
  shows "has_local_lineage self lineage = Inl (Error (''invalid lineage name: '' @ lineage))"
  using assms by (simp add: has_local_lineage_def lookup_description_def)

theorem has_local_lineage_unknown_name_witness:
  "has_local_lineage (one_entry ''bacteria_odb10'' [''2020-03-06'', ''bb22'', ''prokaryota''])
     ''nonexistent_odb10''
   = Inl (Error ''invalid lineage name: nonexistent_odb10'')"
  using has_local_lineage_unknown_name
    [of "one_entry ''bacteria_odb10'' [''2020-03-06'', ''bb22'', ''prokaryota'']"
        "[''bacteria_odb10'' \<mapsto> [''2020-03-06'', ''bb22'', ''prokaryota'']]" "''nonexistent_odb10''"]
  by (simp add: one_entry_def)

subsection \<open>Loading the catalog when the manifest cannot be reached\<close>

lemma read_file_written: "read_file (w\<lparr>fs := (f)(p \<mapsto> File c)\<rparr>) p = Inr c"
  by (simp add: read_file_def)

text \<open>
  The load returns \<^verbatim>\<open>None\<close> only after a fetch that returned \<^verbatim>\<open>False\<close>, and no fetch does:
  line 109 is never reached.
\<close>

lemma download_file_version_document_never_None:
  "fst (download_file_version_document E self w) \<noteq> Inr None"
proof -
  have "b = True" if "download_single_file E u p h w1 = (Inr b, w2)" for u p h w1 w2 b
    using download_single_file_never_False [of E u p h w1] that by (cases b) auto
  then show ?thesis
    by (auto simp add: download_file_version_document_def Let_def
        split: prod.splits sum.splits if_splits)
qed

lemma hash_only_host_answers:
  "remote hash_only_host ''https://busco-data.ezlab.org/v5/data/file_versions.tsv.hash''
     = Delivered ''m0\<newline>''"
  "remote hash_only_host ''https://busco-data.ezlab.org/v5/data/file_versions.tsv''
     = Failed ''urllib.error.URLError''"
  by (simp_all add: hash_only_host_def)

text \<open>
  Claim C5 asks that the load returns the null catalog when the hash file has been
  retrieved and the manifest cannot be reached. On a host that serves the hash file only,
  the request for the manifest fails with \<^verbatim>\<open>urllib.error.URLError\<close> and the load raises
  that exception: it returns nothing. The hash file has been written, and nothing is
  printed.
\<close>

theorem load_raises_when_manifest_unreachable:
  "download_file_version_document hash_only_host (new_downloader None) downloads_disk =
   (Inl (LibraryError ''urllib.error.URLError''),
    \<lparr>fs = [''downloads'' \<mapsto> Dir, ''downloads/file_versions.tsv.hash'' \<mapsto> File ''m0\<newline>''],
     out = [],
     reqs = [''https://busco-data.ezlab.org/v5/data/file_versions.tsv.hash'',
             ''https://busco-data.ezlab.org/v5/data/file_versions.tsv'']\<rparr>)"
  by (simp add: download_file_version_document_def Let_def new_downloader_def
      os_path_join_def urlretrieve_ok [OF hash_only_host_answers(1) open_in_downloads(3)]
      read_file_def download_single_file_unreachable [OF hash_only_host_answers(2)])
     (simp add: downloads_disk_def)

subsection \<open>The constructor when the manifest cannot be reached\<close>

text \<open>
  Were the catalog \<^verbatim>\<open>None\<close>, the first turn of the loop would raise \<^verbatim>\<open>TypeError\<close> at line 46,
  and the handler, which catches \<^verbatim>\<open>KeyError\<close> only, would let it through.
\<close>

lemma init_lineages_null_catalog:
  assumes "lineage_description self = None"
  shows "init_lineages E (lineage # rest) self w = (Inl TypeError, self, w)"
  using assms
  by (simp add: init_lineage_def ensure_lineage_def lookup_description_def)


subsection \<open>The step of the constructor on a stale reference file\<close>

lemma os_path_join_refseq:
  "lineage \<noteq> [] \<Longrightarrow>
   os_path_join d (lineage @ ''/refseq_db.faa.gz'') = os_path_join d lineage @ ''/refseq_db.faa.gz''"
  by (cases lineage) (simp_all add: os_path_join_def)

lemma ensure_lineage_stale:
  assumes "lookup_description self lineage = Inr entry"
    and "2 \<le> length entry"
    and "lineage \<noteq> []"
    and "fs w (os_path_join (download_dir self) (lineage @ ''/refseq_db.faa.gz'')) = Some (File c)"
    and "hexdigest E c \<noteq> entry ! 1"
    and "fs w (os_path_join (download_dir self) lineage) = Some Dir"
  shows "ensure_lineage E lineage self w =
           (Inl (FileNotFoundError
                   (os_path_join (download_dir self) (lineage @ ''/refseq_db.faa.gz''))),
            self,
            w\<lparr>out := out w @ [''md5 hash is incorrect: '' @ hexdigest E c @ '' while ''
                                @ entry ! 1 @ '' expected''],
              fs := (\<lambda>p. if p = os_path_join (download_dir self) lineage
                              \<or> prefix (os_path_join (download_dir self) lineage @ ''/'') p
                           then None else fs w p)\<rparr>)"
proof -
  have p: "prefix (os_path_join (download_dir self) lineage @ ''/'')
             (os_path_join (download_dir self) (lineage @ ''/refseq_db.faa.gz''))"
    by (simp add: os_path_join_refseq [OF assms(3)])
  have ne: "entry ! 1 \<noteq> hexdigest E c"
    using assms(5) by auto
  show ?thesis
    using assms(1,2,4,6) ne p
    by (simp add: ensure_lineage_def Let_def os_path_exists_def md5_def read_file_def
        py_print_def shutil_rmtree_def os_remove_def cong: if_cong)
qed

text \<open>
  Claim C9. The step of the constructor finds the reference file of a lineage on disk with
  a digest other than the expected one. It prints the mismatch and removes the directory
  of the lineage with all it holds; the removal of the reference file that follows then finds
  no such file and raises \<^verbatim>\<open>FileNotFoundError\<close>. The handler catches \<^verbatim>\<open>KeyError\<close> only, so the
  loop of the constructor stops with that exception: the remaining lineages are not
  visited, nothing has been requested, and the reference file is gone.
\<close>

theorem stale_cleanup_raises_FileNotFoundError:
  assumes "lookup_description self lineage = Inr entry"
    and "2 \<le> length entry"
    and "lineage \<noteq> []"
    and "fs w (os_path_join (download_dir self) (lineage @ ''/refseq_db.faa.gz'')) = Some (File c)"
    and "hexdigest E c \<noteq> entry ! 1"
    and "fs w (os_path_join (download_dir self) lineage) = Some Dir"
  shows "init_lineages E (lineage # rest) self w =
           (Inl (FileNotFoundError
                   (os_path_join (download_dir self) (lineage @ ''/refseq_db.faa.gz''))),
            self,
            w\<lparr>out := out w @ [''md5 hash is incorrect: '' @ hexdigest E c @ '' while ''
                                @ entry ! 1 @ '' expected''],
              fs := (\<lambda>p. if p = os_path_join (download_dir self) lineage
                              \<or> prefix (os_path_join (download_dir self) lineage @ ''/'') p
                           then None else fs w p)\<rparr>)
         \<and> reqs (snd (snd (init_lineages E (lineage # rest) self w))) = reqs w
         \<and> fs (snd (snd (init_lineages E (lineage # rest) self w)))
             (os_path_join (download_dir self) (lineage @ ''/refseq_db.faa.gz'')) = None"
proof -
  have p: "prefix (os_path_join (download_dir self) lineage @ ''/'')
             (os_path_join (download_dir self) (lineage @ ''/refseq_db.faa.gz''))"
    by (simp add: os_path_join_refseq [OF assms(3)])
  show ?thesis
    using p by (simp add: init_lineage_def ensure_lineage_stale [OF assms])
qed

theorem stale_cleanup_raises_FileNotFoundError_witness:
  "fst (init_lineages (host example_manifest)
          [''archaea_odb10'', ''bacteria_odb10'', ''eukaryota_odb10'']
          (one_entry ''archaea_odb10'' [''2021-02-23'', ''aa11'', ''prokaryota''])
          \<lparr>fs = [''downloads'' \<mapsto> Dir, ''downloads/archaea_odb10'' \<mapsto> Dir,
                  ''downloads/archaea_odb10/refseq_db.faa.gz'' \<mapsto> File ''archaea sequences''],
           out = [], reqs = []\<rparr>)
   = Inl (FileNotFoundError ''downloads/archaea_odb10/refseq_db.faa.gz'')
   \<and> reqs (snd (snd (init_lineages (host example_manifest)
          [''archaea_odb10'', ''bacteria_odb10'', ''eukaryota_odb10'']
          (one_entry ''archaea_odb10'' [''2021-02-23'', ''aa11'', ''prokaryota''])
          \<lparr>fs = [''downloads'' \<mapsto> Dir, ''downloads/archaea_odb10'' \<mapsto> Dir,
                  ''downloads/archaea_odb10/refseq_db.faa.gz'' \<mapsto> File ''archaea sequences''],
           out = [], reqs = []\<rparr>))) = []
   \<and> out (snd (snd (init_lineages (host example_manifest)
          [''archaea_odb10'', ''bacteria_odb10'', ''eukaryota_odb10'']
          (one_entry ''archaea_odb10'' [''2021-02-23'', ''aa11'', ''prokaryota''])
          \<lparr>fs = [''downloads'' \<mapsto> Dir, ''downloads/archaea_odb10'' \<mapsto> Dir,
                  ''downloads/archaea_odb10/refseq_db.faa.gz'' \<mapsto> File ''archaea sequences''],
           out = [], reqs = []\<rparr>))) = [''md5 hash is incorrect: ffff while aa11 expected'']"
proof -
  have l: "lookup_description (one_entry ''archaea_odb10'' [''2021-02-23'', ''aa11'', ''prokaryota''])
             ''archaea_odb10'' = Inr [''2021-02-23'', ''aa11'', ''prokaryota'']"
    by (simp add: lookup_description_def one_entry_def)
  have n: "2 \<le> length [''2021-02-23'', ''aa11'', ''prokaryota'']"
    by simp
  have e: "''archaea_odb10'' \<noteq> []"
    by simp
  have f: "fs \<lparr>fs = [''downloads'' \<mapsto> Dir, ''downloads/archaea_odb10'' \<mapsto> Dir,
               ''downloads/archaea_odb10/refseq_db.faa.gz'' \<mapsto> File ''archaea sequences''],
         out = [], reqs = []\<rparr>
        (os_path_join (download_dir (one_entry ''archaea_odb10'' [''2021-02-23'', ''aa11'', ''prokaryota'']))
           (''archaea_odb10'' @ ''/refseq_db.faa.gz'')) = Some (File ''archaea sequences'')"
    by (simp add: one_entry_def new_downloader_def os_path_join_def)
  have h: "hexdigest (host example_manifest) ''archaea sequences''
             \<noteq> [''2021-02-23'', ''aa11'', ''prokaryota''] ! 1"
    by (simp add: host_def example_manifest_def)
  have d: "fs \<lparr>fs = [''downloads'' \<mapsto> Dir, ''downloads/archaea_odb10'' \<mapsto> Dir,
               ''downloads/archaea_odb10/refseq_db.faa.gz'' \<mapsto> File ''archaea sequences''],
         out = [], reqs = []\<rparr>
        (os_path_join (download_dir (one_entry ''archaea_odb10'' [''2021-02-23'', ''aa11'', ''prokaryota'']))
           ''archaea_odb10'') = Some Dir"
    by (simp add: one_entry_def new_downloader_def os_path_join_def)
  have x: "hexdigest (host example_manifest) ''archaea sequences'' = ''ffff''"
    by (simp add: host_def example_manifest_def)
  show ?thesis
    using stale_cleanup_raises_FileNotFoundError [OF l n e f h d,
        of "[''bacteria_odb10'', ''eukaryota_odb10'']"]
    by (simp add: x one_entry_def new_downloader_def os_path_join_def
        del: init_lineages.simps cong: if_cong)
qed

subsection \<open>Parsing the manifest\<close>

lemma catalog_of_rows_Cons:
  "d(r ! 0 \<mapsto> [r ! 1, r ! 2, r ! 3]) ++ catalog_of_rows rows = d ++ catalog_of_rows (r # rows)"
proof (rule ext)
  fix name
  show "(d(r ! 0 \<mapsto> [r ! 1, r ! 2, r ! 3]) ++ catalog_of_rows rows) name
          = (d ++ catalog_of_rows (r # rows)) name"
    by (cases "filter (\<lambda>x. x ! 0 = name) rows")
       (auto simp add: map_add_def catalog_of_rows_def)
qed

lemma catalog_of_rows_Nil: "d ++ catalog_of_rows [] = d"
  by (rule ext) (simp add: map_add_def catalog_of_rows_def)

lemma parse_lines_catalog:
  assumes "\<forall>l \<in> set ls. length (py_split (py_strip l)) = 5"
  shows "parse_lines ls d =
           Inr (d ++ catalog_of_rows
                  (filter (\<lambda>r. r ! 4 = ''lineages'') (map (\<lambda>l. py_split (py_strip l)) ls)))"
  using assms
proof (induction ls arbitrary: d)
  case Nil
  show ?case by (simp add: catalog_of_rows_Nil)
next
  case (Cons l ls)
  then show ?case
    using catalog_of_rows_Cons [of d "py_split (py_strip l)"] by (simp add: Let_def)
qed

lemma dom_catalog_of_rows: "dom (catalog_of_rows rows) = (\<lambda>r. r ! 0) ` set rows"
proof -
  have "catalog_of_rows rows name \<noteq> None \<longleftrightarrow> name \<in> (\<lambda>r. r ! 0) ` set rows" for name
  proof (cases "filter (\<lambda>r. r ! 0 = name) rows")
    case Nil
    then show ?thesis
      by (auto simp add: catalog_of_rows_def filter_empty_conv)
  next
    case (Cons a as)
    then have "a \<in> set (filter (\<lambda>r. r ! 0 = name) rows)" by simp
    then have "a \<in> set rows" "a ! 0 = name" by auto
    with Cons show ?thesis by (auto simp add: catalog_of_rows_def)
  qed
  then show ?thesis by (auto simp add: dom_def)
qed

lemma file_versions_paths_differ:
  "os_path_join d ''file_versions.tsv.hash'' \<noteq> os_path_join d ''file_versions.tsv''"
  by (simp add: os_path_join_def)

lemma length_os_path_dirname: "length (os_path_dirname p) \<le> length p"
proof -
  have h: "length (rev (dropWhile (\<lambda>c. c \<noteq> CHR ''/'') (rev p))) \<le> length p"
    using length_dropWhile_le [of "\<lambda>c. c \<noteq> CHR ''/''" "rev p"] by simp
  have "length (rev (dropWhile (\<lambda>c. c = CHR ''/'')
                  (rev (rev (dropWhile (\<lambda>c. c \<noteq> CHR ''/'') (rev p))))))
          \<le> length (rev (dropWhile (\<lambda>c. c \<noteq> CHR ''/'') (rev p)))"
    using length_dropWhile_le
      [of "\<lambda>c. c = CHR ''/''" "rev (rev (dropWhile (\<lambda>c. c \<noteq> CHR ''/'') (rev p)))"]
    by simp
  with h show ?thesis
    by (simp add: os_path_dirname_def Let_def)
qed

lemma hash_path_not_dirname:
  "os_path_join d ''file_versions.tsv.hash'' \<noteq> os_path_dirname (os_path_join d ''file_versions.tsv'')"
proof
  assume e: "os_path_join d ''file_versions.tsv.hash''
               = os_path_dirname (os_path_join d ''file_versions.tsv'')"
  have "length (os_path_join d ''file_versions.tsv'')
          < length (os_path_join d ''file_versions.tsv.hash'')"
    by (simp add: os_path_join_def)
  with e length_os_path_dirname [of "os_path_join d ''file_versions.tsv''"]
  show False by simp
qed

lemma open_for_writing_after_file:
  assumes "q \<noteq> p" and "q \<noteq> os_path_dirname p"
  shows "open_for_writing (w\<lparr>reqs := r, fs := (fs w)(q \<mapsto> File c)\<rparr>) p = open_for_writing w p"
  using assms by (simp add: open_for_writing_def parent_missing_def Let_def)

lemma download_file_version_document_ok:
  assumes "remote E (base_url self @ ''file_versions.tsv.hash'') = Delivered hash_text"
    and "open_for_writing w (os_path_join (download_dir self) ''file_versions.tsv.hash'') = None"
    and "remote E (base_url self @ ''file_versions.tsv'') = Delivered text"
    and "open_for_writing w (os_path_join (download_dir self) ''file_versions.tsv'') = None"
    and "hexdigest E text = py_strip (readline hash_text)"
    and "\<forall>row \<in> set (manifest_rows text). length row = 5"
  shows "fst (download_file_version_document E self w)
           = Inr (Some (catalog_of_rows (lineages_rows text)))"
proof -
  let ?hp = "os_path_join (download_dir self) ''file_versions.tsv.hash''"
  let ?mp = "os_path_join (download_dir self) ''file_versions.tsv''"
  let ?w1 = "w\<lparr>reqs := reqs w @ [base_url self @ ''file_versions.tsv.hash''],
               fs := (fs w)(?hp \<mapsto> File hash_text)\<rparr>"
  have f: "open_for_writing ?w1 ?mp = None"
    using assms(4)
    by (simp add: open_for_writing_after_file [OF file_versions_paths_differ hash_path_not_dirname])
  have five: "\<forall>l \<in> set (file_lines text). length (py_split (py_strip l)) = 5"
    using assms(6) by (simp add: manifest_rows_def)
  have p: "parse_lines (file_lines text) Map.empty
             = Inr (catalog_of_rows (lineages_rows text))"
    by (simp add: parse_lines_catalog [OF five] lineages_rows_def manifest_rows_def)
  show ?thesis
    by (simp add: download_file_version_document_def Let_def urlretrieve_ok [OF assms(1,2)]
        read_file_def download_single_file_ok [OF assms(3) f assms(5)] p)
qed

lemma catalog_of_rows_last:
  assumes "name \<in> dom (catalog_of_rows rows)"
  shows "catalog_of_rows rows name =
           Some [last (filter (\<lambda>r. r ! 0 = name) rows) ! 1,
                 last (filter (\<lambda>r. r ! 0 = name) rows) ! 2,
                 last (filter (\<lambda>r. r ! 0 = name) rows) ! 3]"
  using assms
  by (cases "filter (\<lambda>r. r ! 0 = name) rows") (auto simp add: catalog_of_rows_def dom_def)

text \<open>
  Claim C6, as amended. The hash file and the manifest are delivered and can be written
  into the download directory, the digest of the manifest is the one the hash file gives,
  and every line of the manifest splits into five fields. Then the load returns a catalog whose names are exactly the names of the lines
  whose last field is \<open>lineages\<close>, and each name is mapped to the date, hash and category
  of the last such line that bears it.
\<close>

theorem load_builds_catalog_of_lineages_rows:
  assumes "remote E (base_url self @ ''file_versions.tsv.hash'') = Delivered hash_text"
    and "open_for_writing w (os_path_join (download_dir self) ''file_versions.tsv.hash'') = None"
    and "remote E (base_url self @ ''file_versions.tsv'') = Delivered text"
    and "open_for_writing w (os_path_join (download_dir self) ''file_versions.tsv'') = None"
    and "hexdigest E text = py_strip (readline hash_text)"
    and "\<forall>row \<in> set (manifest_rows text). length row = 5"
  shows "fst (download_file_version_document E self w)
           = Inr (Some (catalog_of_rows (lineages_rows text)))
         \<and> dom (catalog_of_rows (lineages_rows text)) = (\<lambda>r. r ! 0) ` set (lineages_rows text)
         \<and> (\<forall>name \<in> dom (catalog_of_rows (lineages_rows text)).
               catalog_of_rows (lineages_rows text) name =
                 Some [last (filter (\<lambda>r. r ! 0 = name) (lineages_rows text)) ! 1,
                       last (filter (\<lambda>r. r ! 0 = name) (lineages_rows text)) ! 2,
                       last (filter (\<lambda>r. r ! 0 = name) (lineages_rows text)) ! 3])"
  using download_file_version_document_ok [OF assms] dom_catalog_of_rows catalog_of_rows_last
  by blast

lemma rows_example: "manifest_rows example_manifest =
   [[''archaea_odb10'', ''2021-02-23'', ''aa11'', ''prokaryota'', ''lineages''],
    [''bacteria_odb10'', ''2020-03-06'', ''bb22'', ''prokaryota'', ''lineages''],
    [''eukaryota_odb10'', ''2020-09-10'', ''ee33'', ''eukaryota'', ''lineages''],
    [''list_of_reference_markers.archaea_odb10'', ''2019-12-16'', ''cc44'', ''prokaryota'', ''placement_files'']]"
  by code_simp

lemma rows_twice: "manifest_rows twice_manifest =
   [[''foo'', ''2021-01-01'', ''aaa'', ''category1'', ''lineages''],
    [''foo'', ''2022-02-02'', ''bbb'', ''category2'', ''lineages'']]"
  by code_simp

lemma host_serves_manifest:
  "remote (host m) (base_url (new_downloader None) @ ''file_versions.tsv.hash'')
     = Delivered ''m0\<newline>''"
  "remote (host m) (base_url (new_downloader None) @ ''file_versions.tsv'') = Delivered m"
  "hexdigest (host m) m = py_strip (readline ''m0\<newline>'')"
  "open_for_writing downloads_disk
     (os_path_join (download_dir (new_downloader None)) ''file_versions.tsv.hash'') = None"
  "open_for_writing downloads_disk
     (os_path_join (download_dir (new_downloader None)) ''file_versions.tsv'') = None"
  by (simp_all add: host_def new_downloader_def py_strip_def readline_def
      file_lines_def py_isspace_def whitespace_def os_path_join_def open_in_downloads)

theorem load_builds_catalog_of_lineages_rows_witness:
  "fst (download_file_version_document (host example_manifest) (new_downloader None)
          downloads_disk)
     = Inr (Some (catalog_of_rows (lineages_rows example_manifest)))
   \<and> catalog_of_rows (lineages_rows example_manifest) ''bacteria_odb10''
       = Some [''2020-03-06'', ''bb22'', ''prokaryota'']
   \<and> catalog_of_rows (lineages_rows example_manifest) ''list_of_reference_markers.archaea_odb10''
       = None"
proof -
  have five: "\<forall>row \<in> set (manifest_rows example_manifest). length row = 5"
    by (simp add: rows_example)
  show ?thesis
    using load_builds_catalog_of_lineages_rows [OF host_serves_manifest(1)
        host_serves_manifest(4) host_serves_manifest(2) host_serves_manifest(5)
        host_serves_manifest(3) five]
    by (simp add: lineages_rows_def rows_example catalog_of_rows_def)
qed

text \<open>
  Claim C6 as stated maps the name of every \<open>lineages\<close> line to the fields of that line.
  When two such lines bear one name, the later assignment replaces the earlier one: the
  catalog holds the fields of the second line, not of the first.
\<close>

theorem load_keeps_last_of_repeated_name:
  "manifest_rows twice_manifest =
     [[''foo'', ''2021-01-01'', ''aaa'', ''category1'', ''lineages''],
      [''foo'', ''2022-02-02'', ''bbb'', ''category2'', ''lineages'']]
   \<and> (case fst (download_file_version_document (host twice_manifest) (new_downloader None)
                  downloads_disk) of
        Inl e \<Rightarrow> False
      | Inr None \<Rightarrow> False
      | Inr (Some catalog) \<Rightarrow>
          catalog ''foo'' = Some [''2022-02-02'', ''bbb'', ''category2'']
          \<and> catalog ''foo'' \<noteq> Some [''2021-01-01'', ''aaa'', ''category1''])"
proof -
  have five: "\<forall>row \<in> set (manifest_rows twice_manifest). length row = 5"
    by (simp add: rows_twice)
  show ?thesis
    by (simp add: download_file_version_document_ok [OF host_serves_manifest(1)
        host_serves_manifest(4) host_serves_manifest(2) host_serves_manifest(5)
        host_serves_manifest(3) five]
        lineages_rows_def rows_twice catalog_of_rows_def)
qed

subsection \<open>Downloading a lineage that is already recorded\<close>

text \<open>
  A successful \<open>download_lineage\<close> for a lineage whose entry already has four fields leaves
  it with five, whatever the host and the disk.
\<close>

lemma download_lineage_appends_again:
  assumes "lineage_description self = Some d"
    and "d lineage = Some entry"
    and "length entry = 4"
    and "remote E (base_url self @ ''lineages/'' @ lineage @ ''.'' @ entry ! 0 @ ''.tar.gz'')
           = Delivered c"
    and "open_for_writing w
           (os_path_join (download_dir self) (lineage @ ''.'' @ entry ! 0 @ ''.tar.gz'')) = None"
    and "hexdigest E c = entry ! 1"
    and "members E c = Inr ms"
  shows "\<exists>self2 w2. download_lineage E (Some lineage) self w = (Inr (), self2, w2)
           \<and> lookup_description self2 lineage = Inr (entry @ [download_dir self @ ''/'' @ lineage])
           \<and> has_local_lineage self2 lineage = Inr False"
  using assms
  by (simp add: download_lineage_def download_one_def Let_def lookup_description_def
      download_single_file_ok extract_archive_def read_file_def py_print_def
      append_description_def has_local_lineage_def)

subsection \<open>Two runs on the example host\<close>

text \<open>
  Claim C1 asks that a reference file with an unexpected digest is removed and the lineage
  downloaded again. Here the constructor runs twice on the example host. The first run,
  on an empty disk, downloads and extracts the three default lineages. The second run
  finds the reference file of \<open>archaea_odb10\<close>, whose digest is not the hash of the archive
  the catalog lists: it removes the directory, raises \<^verbatim>\<open>FileNotFoundError\<close> on the file
  it has just removed with it, and requests nothing but the hash file and the manifest.
\<close>

theorem second_construction_fails_on_downloaded_lineage:
  "(case Downloader_init (host example_manifest) None empty_disk of
      (Inl e, w) \<Rightarrow> False
    | (Inr self, w) \<Rightarrow>
        fs w ''downloads/archaea_odb10/refseq_db.faa.gz'' = Some (File ''archaea sequences'')
        \<and> lookup_description self ''archaea_odb10''
            = Inr [''2021-02-23'', ''aa11'', ''prokaryota'', ''downloads/archaea_odb10'']
        \<and> md5 (host example_manifest) w ''downloads/archaea_odb10/refseq_db.faa.gz'' = Inr ''ffff''
        \<and> (case Downloader_init (host example_manifest) None w of
              (Inl e, w2) \<Rightarrow>
                e = FileNotFoundError ''downloads/archaea_odb10/refseq_db.faa.gz''
                \<and> fs w2 ''downloads/archaea_odb10'' = None
                \<and> fs w2 ''downloads/archaea_odb10/refseq_db.faa.gz'' = None
                \<and> reqs w2 = reqs w @ [''https://busco-data.ezlab.org/v5/data/file_versions.tsv.hash'',
                                       ''https://busco-data.ezlab.org/v5/data/file_versions.tsv'']
            | (Inr self2, w2) \<Rightarrow> False))"
  by code_simp

text \<open>
  Claim C2 asks that an entry has four fields exactly when its lineage is present and
  verified. After a construction on an empty disk the entry of \<open>archaea_odb10\<close> has four
  fields. A call of \<open>download_lineage\<close> for it then succeeds, the reference file is on disk,
  and the entry has five fields: \<open>has_local_lineage\<close> returns \<^verbatim>\<open>False\<close>.
\<close>

theorem second_download_hides_lineage:
  "(case Downloader_init (host example_manifest) None empty_disk of
      (Inl e, w) \<Rightarrow> False
    | (Inr self, w) \<Rightarrow>
        has_local_lineage self ''archaea_odb10'' = Inr True
        \<and> (case download_lineage (host example_manifest) (Some ''archaea_odb10'') self w of
              (r, self2, w2) \<Rightarrow>
                r = Inr ()
                \<and> fs w2 ''downloads/archaea_odb10/refseq_db.faa.gz''
                    = Some (File ''archaea sequences'')
                \<and> lookup_description self2 ''archaea_odb10''
                    = Inr [''2021-02-23'', ''aa11'', ''prokaryota'', ''downloads/archaea_odb10'',
                           ''downloads/archaea_odb10'']
                \<and> has_local_lineage self2 ''archaea_odb10'' = Inr False))"
  by code_simp

text \<open>
  Claim C7 asks that a second ensure of a lineage whose archive is cached and valid
  requests nothing and leaves the recorded path as it is. After a construction on an empty
  disk the archive of \<open>archaea_odb10\<close> is on disk with the digest the catalog lists, and the
  entry records the directory of the lineage. A call of \<open>download_lineage\<close> for it requests
  the archive again and appends the path a second time. A second construction requests the
  hash file and the manifest and raises \<^verbatim>\<open>FileNotFoundError\<close>, having removed the
  directory of the lineage: the test of lines 47 to 49 compares the digest of the extracted
  reference file with the hash of the archive.
\<close>

theorem second_ensure_of_cached_lineage_requests_again:
  "(case Downloader_init (host example_manifest) None empty_disk of
      (Inl e, w) \<Rightarrow> False
    | (Inr self, w) \<Rightarrow>
        md5 (host example_manifest) w ''downloads/archaea_odb10.2021-02-23.tar.gz'' = Inr ''aa11''
        \<and> lookup_description self ''archaea_odb10''
            = Inr [''2021-02-23'', ''aa11'', ''prokaryota'', ''downloads/archaea_odb10'']
        \<and> (case download_lineage (host example_manifest) (Some ''archaea_odb10'') self w of
              (r, self2, w2) \<Rightarrow>
                r = Inr ()
                \<and> reqs w2 = reqs w @
                    [''https://busco-data.ezlab.org/v5/data/lineages/archaea_odb10.2021-02-23.tar.gz'']
                \<and> lookup_description self2 ''archaea_odb10''
                    = Inr [''2021-02-23'', ''aa11'', ''prokaryota'', ''downloads/archaea_odb10'',
                           ''downloads/archaea_odb10''])
        \<and> (case Downloader_init (host example_manifest) None w of
              (Inl e, w3) \<Rightarrow>
                e = FileNotFoundError ''downloads/archaea_odb10/refseq_db.faa.gz''
                \<and> reqs w3 = reqs w @
                    [''https://busco-data.ezlab.org/v5/data/file_versions.tsv.hash'',
                     ''https://busco-data.ezlab.org/v5/data/file_versions.tsv'']
                \<and> fs w3 ''downloads/archaea_odb10'' = None
            | (Inr self3, w3) \<Rightarrow> False))"
  by code_simp

end
